theory Spec2Isabelle
  imports Complex_Main "HOL-Library.Log_Nat" "HOL-Library.Word"
begin

section \<open>Common data\<close>

text \<open>
  Hashes (\<open>bytes32\<close>), peer node ids and task ids are opaque identifiers; they are
  only compared for equality and used as dictionary keys, so they are numbers here.
\<close>

type_synonym bytes32 = nat
type_synonym node_id = nat
type_synonym task_id = nat

text \<open>The exceptions the handlers can meet, by class.\<close>

datatype exn =
  AssertionError | KeyError | ValueError | ZeroDivisionError | CancelledError | OtherException

text \<open>A call either returns a value or raises.\<close>

datatype 'a outcome = Returns 'a | Raises exn

text \<open>
  The protocol messages the handlers below build with \<open>make_msg\<close>, each with the fields of
  its payload.
\<close>

datatype Message =
    request_transaction bytes32
  | request_signage_point_or_end_of_sub_slot bytes32 nat bytes32
  | request_signed_values bytes32 bytes32 "bytes32 option"
  | transaction_ack bytes32 nat "string option"

text \<open>
  The fields of the protocol objects that the handlers read (the proofs and the other
  fields are carried along unread and left out).
\<close>

record VDFInfo =
  challenge :: bytes32
  number_of_iterations :: nat
  vdf_output :: nat

record ChallengeChainSubSlot =
  challenge_chain_end_of_slot_vdf :: VDFInfo
  new_sub_slot_iters :: "nat option"
  new_difficulty :: "nat option"

record RewardChainSubSlot =
  end_of_slot_vdf :: VDFInfo

record EndOfSubSlotBundle =
  challenge_chain :: ChallengeChainSubSlot
  reward_chain :: RewardChainSubSlot

text \<open>A bundle for examples, with the challenge and the two iteration counts given.\<close>

definition example_bundle :: "bytes32 \<Rightarrow> nat \<Rightarrow> nat \<Rightarrow> EndOfSubSlotBundle" where
  "example_bundle c cc_iters rc_iters =
     \<lparr>challenge_chain = \<lparr>challenge_chain_end_of_slot_vdf =
         \<lparr>challenge = c, number_of_iterations = cc_iters, vdf_output = 0\<rparr>,
         new_sub_slot_iters = None, new_difficulty = None\<rparr>,
      reward_chain = \<lparr>end_of_slot_vdf =
         \<lparr>challenge = c + 100, number_of_iterations = rc_iters, vdf_output = 0\<rparr>\<rparr>\<rparr>"


section \<open>Wallet protocol: \<open>send_transaction\<close>\<close>

datatype MempoolInclusionStatus = SUCCESS | PENDING | FAILED

datatype Err = Err (name: string)

text \<open>
  \<open>send_transaction\<close> (full_node_api.py, lines 1205-1219). The call
  \<open>full_node.respond_transaction\<close> is a collaborator outside the sources: its result
  \<open>(status, error)\<close> is an argument, and so is what \<open>mempool_manager.get_spendbundle\<close>
  answers for the spend name after that call. The numeric value of a status
  (\<open>status.value\<close>) comes from an enum outside the sources and is the parameter \<open>val\<close>.
\<close>

definition send_transaction ::
  "(MempoolInclusionStatus \<Rightarrow> nat) \<Rightarrow> bytes32 \<Rightarrow> MempoolInclusionStatus \<times> Err option \<Rightarrow>
     'sb option \<Rightarrow> Message option" where
  "send_transaction val spend_name respond get_spendbundle =
     (let status = fst respond; error = snd respond;
          error_name = (case error of Some e \<Rightarrow> Some (name e) | None \<Rightarrow> None);
          response =
            (if status = SUCCESS then transaction_ack spend_name (val status) error_name
             else if get_spendbundle \<noteq> None
                  then transaction_ack spend_name (val SUCCESS) None
                  else transaction_ack spend_name (val status) error_name)
      in Some response)"

section \<open>Mempool items\<close>

text \<open>
  Python's \<open>/\<close> on two \<open>int\<close>s is true division: it raises \<open>ZeroDivisionError\<close> for a
  zero divisor and otherwise gives the \<open>float\<close> (an IEEE 754 double) nearest to the exact
  quotient, ties going to the even mantissa. A finite double is represented by the
  rational number it stands for; \<open><\<close> on finite doubles is \<open><\<close> on these numbers.

  For a positive quotient \<open>p / q\<close>, \<open>binade p q\<close> is the exponent \<open>e\<close> with
  \<open>2\<^sup>e \<le> p / q < 2\<^sup>e\<^sup>+\<^sup>1\<close>; the doubles of that binade are the multiples of \<open>2\<^sup>e\<^sup>-\<^sup>5\<^sup>2\<close>. The
  quotients of two \<open>uint64\<close> lie between \<open>2\<^sup>-\<^sup>6\<^sup>4\<close> and \<open>2\<^sup>6\<^sup>4\<close>, far from the subnormal and
  the overflow range of doubles, which are left out.
\<close>

definition round_half_even :: "rat \<Rightarrow> int" where
  "round_half_even x =
     (let f = \<lfloor>x\<rfloor>; r = x - of_int f
      in if r < 1 / 2 then f else if 1 / 2 < r then f + 1 else if even f then f else f + 1)"

definition binade :: "int \<Rightarrow> int \<Rightarrow> int" where
  "binade p q =
     (let d = bitlen p - bitlen q
      in if 2 powi d \<le> (of_int p / of_int q :: rat) then d else d - 1)"

definition nearest_double :: "int \<Rightarrow> int \<Rightarrow> rat" where
  "nearest_double p q =
     (if p = 0 then 0
      else let ulp = 2 powi (binade p q - 52)
           in of_int (round_half_even (of_int p / of_int q / ulp)) * ulp)"

definition truediv :: "int \<Rightarrow> int \<Rightarrow> rat outcome" where
  "truediv p q = (if q = 0 then Raises ZeroDivisionError else Returns (nearest_double p q))"

text \<open>
  \<open>MempoolItem\<close> (mempool_item.py): the two fields that the ordering reads, both
  \<open>uint64\<close>, the property \<open>fee_per_cost\<close> and \<open>__lt__\<close>, which evaluates
  \<open>self.fee_per_cost\<close> and then \<open>other.fee_per_cost\<close>.
\<close>

record MempoolItem =
  fee :: "64 word"
  cost :: "64 word"

definition fee_per_cost :: "MempoolItem \<Rightarrow> rat outcome" where
  "fee_per_cost self = truediv (uint (fee self)) (uint (cost self))"

definition lt :: "MempoolItem \<Rightarrow> MempoolItem \<Rightarrow> bool outcome" where
  "lt self other =
     (case fee_per_cost self of
        Raises e \<Rightarrow> Raises e
      | Returns x \<Rightarrow>
          (case fee_per_cost other of
             Raises e \<Rightarrow> Raises e
           | Returns y \<Rightarrow> Returns (x < y)))"


section \<open>Transaction gossip: \<open>new_transaction\<close>\<close>

text \<open>
  The part of the node that \<open>new_transaction\<close> and its fetch task read and write.
  \<^item> \<open>sync_mode\<close> is \<open>sync_store.get_sync_mode()\<close>, \<open>synced\<close> what \<open>await full_node.synced()\<close>
    answers, \<open>seen\<close> and \<open>is_fee_enough\<close> the two mempool-manager tests;
  \<^item> \<open>pending_tx_request\<close>, \<open>peers_with_tx\<close> and \<open>tx_fetch_tasks\<close> are the three dictionaries
    of the full-node store. A Python set of peer ids is a list without repetitions;
    \<open>set.pop()\<close> removes an arbitrary element, chosen here by \<open>pop_choice\<close>;
    a task object is represented by the transaction id it fetches;
  \<^item> \<open>server\<close> is \<open>None\<close> while the node has no server, else the key set of
    \<open>server.all_connections\<close>;
  \<^item> \<open>created_tasks\<close> logs the calls of \<open>asyncio.create_task\<close>.
\<close>

record full_node =
  sync_mode :: bool
  synced :: bool
  seen :: "bytes32 \<Rightarrow> bool"
  is_fee_enough :: "nat \<Rightarrow> nat \<Rightarrow> bool"
  pending_tx_request :: "bytes32 \<rightharpoonup> node_id"
  peers_with_tx :: "bytes32 \<rightharpoonup> node_id list"
  tx_fetch_tasks :: "task_id \<rightharpoonup> bytes32"
  server :: "node_id set option"
  pop_choice :: "node_id list \<Rightarrow> nat"
  created_tasks :: "(task_id \<times> bytes32) list"

record NewTransaction =
  transaction_id :: bytes32
  cost :: nat
  fees :: nat

text \<open>
  \<open>new_transaction\<close> (lines 119-198). \<open>peer\<close> is \<open>peer.peer_node_id\<close> and \<open>task_id\<close> the
  value \<open>token_bytes()\<close> draws. The handler returns \<open>None\<close> on every path; the result
  pairs that reply with the node after the call. The handler itself sends nothing: the
  \<open>RequestTransaction\<close> messages are sent by the task it creates.
\<close>

definition new_transaction ::
  "NewTransaction \<Rightarrow> node_id \<Rightarrow> task_id \<Rightarrow> full_node \<Rightarrow> Message option \<times> full_node" where
  "new_transaction transaction peer task_id n =
     (if sync_mode n then (None, n)
      else if \<not> synced n then (None, n)
      else if seen n (transaction_id transaction) then (None, n)
      else if is_fee_enough n (fees transaction) (cost transaction) then
        (if transaction_id transaction \<in> dom (pending_tx_request n) then
           (case peers_with_tx n (transaction_id transaction) of
              Some current_set \<Rightarrow>
                if peer \<in> set current_set then (None, n)
                else (None, n\<lparr>peers_with_tx :=
                        (peers_with_tx n)(transaction_id transaction \<mapsto> current_set @ [peer])\<rparr>)
            | None \<Rightarrow>
                (None, n\<lparr>peers_with_tx :=
                        (peers_with_tx n)(transaction_id transaction \<mapsto> [peer])\<rparr>))
         else
           (None,
            n\<lparr>pending_tx_request := (pending_tx_request n)(transaction_id transaction \<mapsto> peer),
              peers_with_tx := (peers_with_tx n)(transaction_id transaction \<mapsto> [peer]),
              created_tasks := created_tasks n @ [(task_id, transaction_id transaction)],
              tx_fetch_tasks := (tx_fetch_tasks n)(task_id \<mapsto> transaction_id transaction)\<rparr>))
      else (None, n))"


section \<open>Transaction gossip: the fetch task\<close>



text \<open>\<open>set.pop()\<close> on a non-empty set: the element taken and the set that is left.\<close>

definition set_pop :: "(node_id list \<Rightarrow> nat) \<Rightarrow> node_id list \<Rightarrow> node_id \<times> node_id list" where
  "set_pop choice s = (let i = choice s mod length s in (s ! i, take i s @ drop (Suc i) s))"


text \<open>The \<open>finally\<close> block (lines 183-190).\<close>

definition cleanup :: "bytes32 \<Rightarrow> task_id \<Rightarrow> full_node \<Rightarrow> full_node" where
  "cleanup tx_id task_id n =
     (let n1 = (if tx_id \<in> dom (peers_with_tx n)
                then n\<lparr>peers_with_tx := (peers_with_tx n)(tx_id := None)\<rparr> else n);
          n2 = (if tx_id \<in> dom (pending_tx_request n1)
                then n1\<lparr>pending_tx_request := (pending_tx_request n1)(tx_id := None)\<rparr> else n1);
          n3 = (if task_id \<in> dom (tx_fetch_tasks n2)
                then n2\<lparr>tx_fetch_tasks := (tx_fetch_tasks n2)(task_id := None)\<rparr> else n2)
      in n3)"




section \<open>Transaction gossip: handlers and tasks running together\<close>

text \<open>
  \<open>respond_transaction\<close> (lines 219-237): \<open>spend_name\<close> is \<open>std_hash(tx_bytes)\<close>. The handler
  removes the two markers of that name and hands the transaction to
  \<open>full_node.respond_transaction\<close>, which is outside the sources; of what that call does,
  the node model only holds what the mempool reports as seen afterwards, \<open>seen_after\<close>.
\<close>

definition respond_transaction ::
  "bytes32 \<Rightarrow> (bytes32 \<Rightarrow> bool) \<Rightarrow> full_node \<Rightarrow> Message option \<times> full_node" where
  "respond_transaction spend_name seen_after n =
     (let n1 = (if spend_name \<in> dom (pending_tx_request n)
                then n\<lparr>pending_tx_request := (pending_tx_request n)(spend_name := None)\<rparr> else n);
          n2 = (if spend_name \<in> dom (peers_with_tx n1)
                then n1\<lparr>peers_with_tx := (peers_with_tx n1)(spend_name := None)\<rparr> else n1)
      in (None, n2\<lparr>seen := seen_after\<rparr>))"

text \<open>
  The node together with the fetch tasks that have been created and have not finished
  (a task is its task id and the transaction id it fetches). An event is one
  uninterrupted piece of execution: a handler call, one \<open>pop\<close> of a running fetch task,
  the end of a fetch task that has run (its \<open>finally\<close> block), the end of a fetch task
  that is cancelled before its first step (nothing of its body runs), or a change of what
  the node reads from its collaborators (sync state, mempool, connections).
\<close>

record system =
  node :: full_node
  in_flight :: "(task_id \<times> bytes32) list"

datatype event =
    Peer_sends_NewTransaction NewTransaction node_id task_id
  | Peer_sends_RespondTransaction bytes32 "bytes32 \<Rightarrow> bool"
  | Fetch_task_pops task_id bytes32
  | Fetch_task_finishes task_id bytes32
  | Fetch_task_cancelled_unstarted task_id bytes32
  | World_changes bool bool "bytes32 \<Rightarrow> bool" "node_id set option"

fun step :: "event \<Rightarrow> system \<Rightarrow> system" where
  "step (Peer_sends_NewTransaction tx peer task_id) s =
     (let n' = snd (new_transaction tx peer task_id (node s))
      in \<lparr>node = n',
          in_flight = in_flight s @ drop (length (created_tasks (node s))) (created_tasks n')\<rparr>)"
| "step (Peer_sends_RespondTransaction spend_name seen_after) s =
     s\<lparr>node := snd (respond_transaction spend_name seen_after (node s))\<rparr>"
| "step (Fetch_task_pops task_id tx_id) s =
     (if (task_id, tx_id) \<in> set (in_flight s) then
        (case peers_with_tx (node s) tx_id of
           None \<Rightarrow> s
         | Some peers \<Rightarrow>
             if length peers = 0 then s
             else s\<lparr>node := (node s)\<lparr>peers_with_tx := (peers_with_tx (node s))
                     (tx_id \<mapsto> snd (set_pop (pop_choice (node s)) peers))\<rparr>\<rparr>)
      else s)"
| "step (Fetch_task_finishes task_id tx_id) s =
     (if (task_id, tx_id) \<in> set (in_flight s) then
        \<lparr>node = cleanup tx_id task_id (node s), in_flight = remove1 (task_id, tx_id) (in_flight s)\<rparr>
      else s)"
| "step (Fetch_task_cancelled_unstarted task_id tx_id) s =
     s\<lparr>in_flight := remove1 (task_id, tx_id) (in_flight s)\<rparr>"
| "step (World_changes sm sy se sv) s =
     s\<lparr>node := (node s)\<lparr>sync_mode := sm, synced := sy, seen := se, server := sv\<rparr>\<rparr>"

fun run :: "event list \<Rightarrow> system \<Rightarrow> system" where
  "run [] s = s"
| "run (e # es) s = run es (step e s)"

text \<open>At most one fetch task in flight for each transaction id.\<close>

definition single_flight :: "system \<Rightarrow> bool" where
  "single_flight s = distinct (map snd (in_flight s))"

text \<open>
  What the mempool reports as seen can change when a RespondTransaction is handled and
  when the mempool changes for another reason. \<open>answered_stay_seen\<close> says of a run that at
  each such change, every id that has a fetch task in flight and is left without its
  marker in \<open>pending_tx_request\<close> is seen by the mempool after the change: a transaction
  that arrives while its fetch task is in flight is kept as seen until the task ends.
\<close>

fun answered_stay_seen :: "event list \<Rightarrow> system \<Rightarrow> bool" where
  "answered_stay_seen [] s = True"
| "answered_stay_seen (e # es) s =
     ((case e of
         Peer_sends_RespondTransaction spend_name seen_after \<Rightarrow>
           (\<forall>x \<in> snd ` set (in_flight s).
              x = spend_name \<or> x \<notin> dom (pending_tx_request (node s)) \<longrightarrow> seen_after x)
       | World_changes sm sy se sv \<Rightarrow>
           (\<forall>x \<in> snd ` set (in_flight s).
              x \<notin> dom (pending_tx_request (node s)) \<longrightarrow> se x)
       | _ \<Rightarrow> True)
      \<and> answered_stay_seen es (step e s))"

text \<open>
  The invariant behind the single-flight marker: the tasks in flight fetch different ids,
  and each of these ids is marked in \<open>pending_tx_request\<close> or seen by the mempool, so
  that \<open>new_transaction\<close> starts no fetch for it.
\<close>

definition marked :: "system \<Rightarrow> bool" where
  "marked s = (distinct (map snd (in_flight s))
               \<and> (\<forall>x \<in> snd ` set (in_flight s).
                    x \<in> dom (pending_tx_request (node s)) \<or> seen (node s) x))"

text \<open>The condition under which \<open>new_transaction\<close> starts a fetch.\<close>

definition starts_fetch :: "NewTransaction \<Rightarrow> full_node \<Rightarrow> bool" where
  "starts_fetch tx n = (\<not> sync_mode n \<and> synced n \<and> \<not> seen n (transaction_id tx)
      \<and> is_fee_enough n (fees tx) (cost tx) \<and> transaction_id tx \<notin> dom (pending_tx_request n))"

text \<open>Two nodes for examples: one idle, one with a fetch of id 5 under way.\<close>

definition idle_node :: full_node where
  "idle_node =
     \<lparr>sync_mode = False, synced = True, seen = (\<lambda>_. False),
      is_fee_enough = (\<lambda>fee cost. 5 * cost \<le> fee),
      pending_tx_request = Map.empty, peers_with_tx = Map.empty, tx_fetch_tasks = Map.empty,
      server = Some {1, 2}, pop_choice = (\<lambda>_. 0), created_tasks = []\<rparr>"

definition gossip_node :: full_node where
  "gossip_node =
     \<lparr>sync_mode = False, synced = True, seen = (\<lambda>_. False),
      is_fee_enough = (\<lambda>fee cost. 5 * cost \<le> fee),
      pending_tx_request = [5 \<mapsto> 1], peers_with_tx = [5 \<mapsto> [1, 2]], tx_fetch_tasks = [9 \<mapsto> 5],
      server = Some {1, 2}, pop_choice = (\<lambda>_. 0), created_tasks = [(9, 5)]\<rparr>"

section \<open>Farming: \<open>declare_proof_of_space\<close> and \<open>signed_values\<close>\<close>

text \<open>
  The objects of the farmer protocol and of the chain, with the fields that the two
  handlers read. Signatures, generators and coins are opaque values; \<open>G2Element()\<close> is the
  default signature. \<open>BlockRecord\<close>, \<open>UnfinishedBlock\<close> and \<open>ProofOfSpace\<close> are classes outside
  the sources: \<open>is_transaction_block\<close> and \<open>timestamp\<close> of a block record are kept as two
  fields, \<open>foliage_block_data_hash\<close> stands for \<open>foliage.foliage_block_data.get_hash()\<close>
  and \<open>is_transaction_block_ub\<close> for the method \<open>is_transaction_block()\<close> of an unfinished
  block; the fields of its foliage are fields of the block.
\<close>

type_synonym G2Element = nat
type_synonym BlockGenerator = nat
type_synonym Coin = nat

definition G2Element :: G2Element where
  "G2Element = 0"

record ProofOfSpace =
  pool_contract_puzzle_hash :: "bytes32 option"
  plot_public_key :: nat
  proof_size :: nat

record PoolTarget =
  puzzle_hash :: bytes32
  max_height :: nat

record DeclareProofOfSpace =
  challenge_hash :: bytes32
  challenge_chain_sp :: bytes32
  signage_point_index :: nat
  reward_chain_sp :: bytes32
  proof_of_space :: ProofOfSpace
  challenge_chain_sp_signature :: G2Element
  reward_chain_sp_signature :: G2Element
  farmer_puzzle_hash :: bytes32
  pool_target :: "PoolTarget option"
  pool_signature :: "G2Element option"

record SignagePoint =
  cc_vdf :: "VDFInfo option"
  rc_vdf :: "VDFInfo option"

record BlockRecord =
  header_hash :: bytes32
  prev_hash :: bytes32
  height :: nat
  weight :: nat
  is_transaction_block :: bool
  timestamp :: "nat option"
  reward_infusion_new_challenge :: bytes32
  finished_reward_slot_hashes :: "bytes32 list option"
  sub_slot_iters :: nat

record SpendBundle =
  coin_spends :: nat
  aggregated_signature :: G2Element

record UnfinishedBlock =
  reward_chain_block_proof_of_space :: ProofOfSpace
  foliage_block_data_hash :: bytes32
  foliage_block_data_signature :: G2Element
  foliage_transaction_block_hash :: "bytes32 option"
  foliage_transaction_block_signature :: "G2Element option"
  transactions_generator :: "BlockGenerator option"
  is_transaction_block_ub :: bool

record SignedValues =
  quality_string :: bytes32
  signed_foliage_block_data_signature :: G2Element
  signed_foliage_transaction_block_signature :: G2Element

text \<open>
  The arguments of \<open>create_unfinished_block\<close> (lines 866-889 and 912-935), in the order
  of the call, without the constants and the blockchain, which belong to the node;
  \<open>get_plot_sig\<close> and \<open>get_pool_sig\<close> are closures over the request, which stands for
  them.
\<close>

record block_args =
  arg_total_iters_pos_slot :: nat
  arg_sub_slot_iters :: nat
  arg_signage_point_index :: nat
  arg_sp_iters :: nat
  arg_ip_iters :: nat
  arg_proof_of_space :: ProofOfSpace
  arg_cc_challenge_hash :: bytes32
  arg_farmer_ph :: bytes32
  arg_pool_target :: PoolTarget
  arg_signatures :: DeclareProofOfSpace
  arg_sp_vdfs :: SignagePoint
  arg_timestamp :: nat
  arg_block_generator :: "BlockGenerator option"
  arg_aggregate_signature :: G2Element
  arg_additions :: "Coin list option"
  arg_removals :: "Coin list option"
  arg_prev_b :: "BlockRecord option"
  arg_finished_sub_slots :: "EndOfSubSlotBundle list"

text \<open>
  What the two handlers read of the node, and the collaborators they call, all outside
  the sources. A collaborator that can raise answers an \<open>outcome\<close>.
  \<open>block_record\<close> raises for an unknown hash where \<open>try_block_record\<close> answers \<open>None\<close>;
  \<open>finished_sub_slots\<close> is the list of the store, of which the loop of line 772 reads the
  bundle of each entry; \<open>time\<close> is \<open>int(time.time())\<close>; \<open>send_message\<close> answers the
  exception with which \<open>await peer.send_message\<close> ends, if any. The handler runs without
  suspension from line 758 to line 908, so the chain and the store do not change in
  between; \<open>get_peak\<close> answers the same at lines 717 and 758. For \<open>signed_values\<close>,
  \<open>get_candidate_block\<close> is the lookup of line 952 and \<open>get_candidate_block_backup\<close> the
  lookup with \<open>backup=True\<close> of line 990, after the \<open>await\<close> of line 986; \<open>verify\<close> is
  \<open>AugSchemeMPL.verify\<close>, and \<open>respond_unfinished_block\<close> answers the exception with which
  \<open>await full_node.respond_unfinished_block(request, None, True)\<close> ends, if any.
\<close>

record farming_view =
  get_sync_mode :: bool
  get_signage_point :: "bytes32 \<Rightarrow> SignagePoint option"
  get_hash :: "nat \<Rightarrow> bytes32"
  GENESIS_CHALLENGE :: bytes32
  get_sub_slot :: "bytes32 \<Rightarrow> (EndOfSubSlotBundle \<times> nat \<times> nat) option"
  verify_and_get_quality_string :: "ProofOfSpace \<Rightarrow> bytes32 \<Rightarrow> bytes32 \<Rightarrow> bytes32 option"
  get_peak :: "BlockRecord option"
  block_record :: "bytes32 \<Rightarrow> BlockRecord outcome"
  try_block_record :: "bytes32 \<Rightarrow> BlockRecord option"
  create_bundle_from_mempool :: "bytes32 \<Rightarrow> (SpendBundle \<times> Coin list \<times> Coin list) option outcome"
  previous_generator :: "nat option"
  best_solution_generator_from_template :: "nat \<Rightarrow> SpendBundle \<Rightarrow> BlockGenerator outcome"
  simple_solution_generator :: "SpendBundle \<Rightarrow> BlockGenerator outcome"
  finished_sub_slots :: "EndOfSubSlotBundle option list"
  reward_chain_get_hash :: "RewardChainSubSlot \<Rightarrow> bytes32"
  get_finished_sub_slots :: "BlockRecord option \<Rightarrow> bytes32 \<Rightarrow> EndOfSubSlotBundle list option outcome"
  GENESIS_PRE_FARM_POOL_PUZZLE_HASH :: bytes32
  GENESIS_PRE_FARM_FARMER_PUZZLE_HASH :: bytes32
  MAX_SUB_SLOT_BLOCKS :: nat
  DIFFICULTY_STARTING :: nat
  SUB_SLOT_ITERS_STARTING :: nat
  DIFFICULTY_CONSTANT_FACTOR :: nat
  calculate_iterations_quality :: "nat \<Rightarrow> bytes32 \<Rightarrow> nat \<Rightarrow> nat \<Rightarrow> bytes32 \<Rightarrow> nat outcome"
  calculate_sp_iters :: "nat \<Rightarrow> nat \<Rightarrow> nat outcome"
  calculate_ip_iters :: "nat \<Rightarrow> nat \<Rightarrow> nat \<Rightarrow> nat outcome"
  time :: nat
  create_unfinished_block :: "block_args \<Rightarrow> UnfinishedBlock outcome"
  send_message :: "Message \<Rightarrow> exn option"
  get_candidate_block :: "bytes32 \<Rightarrow> (nat \<times> UnfinishedBlock) option"
  get_candidate_block_backup :: "bytes32 \<Rightarrow> (nat \<times> UnfinishedBlock) option"
  verify :: "nat \<Rightarrow> bytes32 \<Rightarrow> G2Element \<Rightarrow> bool"
  has_valid_pool_sig :: "UnfinishedBlock \<Rightarrow> bool"
  respond_unfinished_block :: "UnfinishedBlock \<Rightarrow> exn option"

text \<open>
  How a piece of the handler ends: it goes on with a value, it makes the handler
  \<open>return None\<close>, or it raises. A piece that contains an unbounded loop answers an
  option, \<open>None\<close> when the loop does not end.
\<close>

datatype 'a flow = Continue 'a | Return_None | Raise exn

definition flow_bind :: "'a flow option \<Rightarrow> ('a \<Rightarrow> 'b flow option) \<Rightarrow> 'b flow option" where
  "flow_bind m f =
     (case m of
        None \<Rightarrow> None
      | Some (Continue x) \<Rightarrow> f x
      | Some Return_None \<Rightarrow> Some Return_None
      | Some (Raise e) \<Rightarrow> Some (Raise e))"

definition of_outcome :: "'a outcome \<Rightarrow> 'a flow option" where
  "of_outcome r = (case r of Returns x \<Rightarrow> Some (Continue x) | Raises e \<Rightarrow> Some (Raise e))"

text \<open>
  The constructors \<open>uint64\<close> and \<open>uint32\<close> (\<open>tad.util.ints\<close>, outside the sources) raise
  \<open>ValueError\<close> for a value out of range. \<open>except Exception\<close> catches every exception but
  those outside the class \<open>Exception\<close>, of which the model has \<open>asyncio.CancelledError\<close>
  (a \<open>BaseException\<close> since Python 3.8).
\<close>

definition uint64 :: "int \<Rightarrow> nat outcome" where
  "uint64 x = (if 0 \<le> x \<and> x < 2 ^ 64 then Returns (nat x) else Raises ValueError)"

definition uint32 :: "int \<Rightarrow> nat outcome" where
  "uint32 x = (if 0 \<le> x \<and> x < 2 ^ 32 then Returns (nat x) else Raises ValueError)"

definition is_Exception :: "exn \<Rightarrow> bool" where
  "is_Exception e = (e \<noteq> CancelledError)"

text \<open>
  Lines 666-709: the signage point, the challenge, the sub slot of the proof of space and
  the quality string. \<open>len(quality_string) == 32\<close> holds of every \<open>bytes32\<close>.
\<close>

definition resolve_signage_point ::
  "farming_view \<Rightarrow> DeclareProofOfSpace \<Rightarrow>
     (SignagePoint \<times> bytes32 \<times> (EndOfSubSlotBundle \<times> nat \<times> nat) option \<times> nat \<times> bytes32)
       flow option" where
  "resolve_signage_point v request =
     (case get_signage_point v (challenge_chain_sp request) of
        None \<Rightarrow> Some Return_None
      | Some sp_vdfs \<Rightarrow>
          flow_bind
            (if signage_point_index request > 0 then
               (case rc_vdf sp_vdfs of
                  None \<Rightarrow> Some (Raise AssertionError)
                | Some rc \<Rightarrow>
                    if get_hash v (vdf_output rc) \<noteq> reward_chain_sp request
                    then Some Return_None else Some (Continue ()))
             else Some (Continue ()))
            (\<lambda>_. flow_bind
               (if signage_point_index request = 0 then Some (Continue (challenge_chain_sp request))
                else (case cc_vdf sp_vdfs of
                        None \<Rightarrow> Some (Raise AssertionError)
                      | Some cc \<Rightarrow> Some (Continue (challenge cc))))
               (\<lambda>cc_challenge_hash. flow_bind
                  (if challenge_hash request \<noteq> GENESIS_CHALLENGE v then
                     (case get_sub_slot v cc_challenge_hash of
                        None \<Rightarrow> Some Return_None
                      | Some pos_sub_slot \<Rightarrow>
                          Some (Continue (Some pos_sub_slot, snd (snd pos_sub_slot))))
                   else Some (Continue (None, 0)))
                  (\<lambda>(pos_sub_slot, total_iters_pos_slot).
                     if cc_challenge_hash \<noteq> challenge_hash request then Some (Raise AssertionError)
                     else (case verify_and_get_quality_string v (proof_of_space request)
                                  cc_challenge_hash (challenge_chain_sp request) of
                             None \<Rightarrow> Some (Raise AssertionError)
                           | Some quality \<Rightarrow>
                               Some (Continue (sp_vdfs, cc_challenge_hash, pos_sub_slot,
                                               total_iters_pos_slot, quality)))))))"

text \<open>
  Lines 716-746: the last transaction block from the peak on (\<open>while not
  curr_l_tb.is_transaction_block\<close>), and the bundle of the mempool for it with its
  generator. The result is \<open>(aggregate_signature, block_generator, additions, removals)\<close>.
\<close>

partial_function (option) last_transaction_block ::
  "farming_view \<Rightarrow> BlockRecord \<Rightarrow> BlockRecord flow option" where
  "last_transaction_block v curr_l_tb =
     (if is_transaction_block curr_l_tb then Some (Continue curr_l_tb)
      else (case block_record v (prev_hash curr_l_tb) of
              Raises e \<Rightarrow> Some (Raise e)
            | Returns b \<Rightarrow> last_transaction_block v b))"

declare last_transaction_block.simps [code]

definition grab_mempool ::
  "farming_view \<Rightarrow>
     (G2Element \<times> BlockGenerator option \<times> Coin list option \<times> Coin list option) flow option" where
  "grab_mempool v =
     (case get_peak v of
        None \<Rightarrow> Some (Continue (G2Element, None, Some [], Some []))
      | Some peak \<Rightarrow>
          flow_bind (last_transaction_block v peak)
            (\<lambda>curr_l_tb.
               case create_bundle_from_mempool v (header_hash curr_l_tb) of
                 Raises e \<Rightarrow>
                   if is_Exception e then Some (Continue (G2Element, None, Some [], Some []))
                   else Some (Raise e)
               | Returns None \<Rightarrow> Some (Continue (G2Element, None, Some [], Some []))
               | Returns (Some (spend_bundle, additions, removals)) \<Rightarrow>
                   flow_bind
                     (of_outcome
                        (case previous_generator v of
                           Some template \<Rightarrow>
                             best_solution_generator_from_template v template spend_bundle
                         | None \<Rightarrow> simple_solution_generator v spend_bundle))
                     (\<lambda>block_generator.
                        Some (Continue (aggregated_signature spend_bundle, Some block_generator,
                                        Some additions, Some removals)))))"

text \<open>
  Lines 762-774: the reward-chain challenge of the signage point, taken back through
  the empty sub slots of the store (\<open>for eos, _, _ in reversed(finished_sub_slots)\<close>).
\<close>

definition reward_chain_challenge ::
  "DeclareProofOfSpace \<Rightarrow> SignagePoint \<Rightarrow> (EndOfSubSlotBundle \<times> nat \<times> nat) option \<Rightarrow>
     bytes32 flow option" where
  "reward_chain_challenge request sp_vdfs pos_sub_slot =
     (if signage_point_index request = 0 then
        (case pos_sub_slot of
           None \<Rightarrow> Some Return_None
         | Some s \<Rightarrow> Some (Continue (challenge (end_of_slot_vdf (reward_chain (fst s))))))
      else
        (case rc_vdf sp_vdfs of
           None \<Rightarrow> Some (Raise AssertionError)
         | Some rc \<Rightarrow> Some (Continue (challenge rc))))"

fun backtrack :: "farming_view \<Rightarrow> EndOfSubSlotBundle option list \<Rightarrow> bytes32 \<Rightarrow> bytes32" where
  "backtrack v [] rc_challenge = rc_challenge"
| "backtrack v (eos # rest) rc_challenge =
     backtrack v rest
       (case eos of
          None \<Rightarrow> rc_challenge
        | Some e \<Rightarrow>
            if reward_chain_get_hash v (reward_chain e) = rc_challenge
            then challenge (end_of_slot_vdf (reward_chain e)) else rc_challenge)"

text \<open>
  Lines 776-790: the loop \<open>while prev_b is not None and attempts < 10\<close>, from the state
  in which \<open>prev_b\<close> and \<open>attempts\<close> have the given values. The result is \<open>found\<close>, \<open>prev_b\<close>
  after the loop, and the number of calls of \<open>try_block_record\<close> the loop has made.
\<close>

function find_prev_block ::
  "farming_view \<Rightarrow> bytes32 \<Rightarrow> BlockRecord option \<Rightarrow> nat \<Rightarrow> bool \<times> BlockRecord option \<times> nat" where
  "find_prev_block v rc_challenge prev_b attempts =
     (case prev_b of
        None \<Rightarrow> (False, None, 0)
      | Some b \<Rightarrow>
          if \<not> attempts < 10 then (False, Some b, 0)
          else if reward_infusion_new_challenge b = rc_challenge then (True, Some b, 0)
          else if (case finished_reward_slot_hashes b of
                     None \<Rightarrow> False
                   | Some hashes \<Rightarrow> length hashes > 0 \<and> last hashes = rc_challenge)
               then (True, try_block_record v (prev_hash b), 1)
          else
            let r = find_prev_block v rc_challenge (try_block_record v (prev_hash b)) (attempts + 1)
            in (fst r, fst (snd r), Suc (snd (snd r))))"
  by pat_completeness auto
termination
  by (relation "measure (\<lambda>(v, rc_challenge, prev_b, attempts). 10 - attempts)") auto

definition previous_block ::
  "farming_view \<Rightarrow> DeclareProofOfSpace \<Rightarrow> SignagePoint \<Rightarrow>
     (EndOfSubSlotBundle \<times> nat \<times> nat) option \<Rightarrow> BlockRecord option flow option" where
  "previous_block v request sp_vdfs pos_sub_slot =
     (case get_peak v of
        None \<Rightarrow> Some (Continue None)
      | Some peak \<Rightarrow>
          flow_bind (reward_chain_challenge request sp_vdfs pos_sub_slot)
            (\<lambda>rc_challenge.
               let r = find_prev_block v (backtrack v (rev (finished_sub_slots v)) rc_challenge)
                         (Some peak) 0
               in if \<not> fst r then Some Return_None else Some (Continue (fst (snd r)))))"

text \<open>
  Lines 795-813: the finished sub slots, inside \<open>try\<close> with \<open>except ValueError\<close>.
\<close>

definition finished_sub_slots_for ::
  "farming_view \<Rightarrow> BlockRecord option \<Rightarrow> bytes32 \<Rightarrow>
     (EndOfSubSlotBundle \<times> nat \<times> nat) option \<Rightarrow> EndOfSubSlotBundle list flow option" where
  "finished_sub_slots_for v prev_b cc_challenge_hash pos_sub_slot =
     (case get_finished_sub_slots v prev_b cc_challenge_hash of
        Raises e \<Rightarrow> if e = ValueError then Some Return_None else Some (Raise e)
      | Returns None \<Rightarrow> Some Return_None
      | Returns (Some slots) \<Rightarrow>
          if length slots > 0 \<and> pos_sub_slot \<noteq> None \<and> last slots \<noteq> fst (the pos_sub_slot)
          then Some Return_None
          else Some (Continue slots))"

text \<open>Lines 814-826: the pool target and the farmer puzzle hash.\<close>

definition targets ::
  "farming_view \<Rightarrow> DeclareProofOfSpace \<Rightarrow> BlockRecord option \<Rightarrow>
     (PoolTarget \<times> bytes32) flow option" where
  "targets v request prev_b =
     (case prev_b of
        None \<Rightarrow>
          Some (Continue (\<lparr>puzzle_hash = GENESIS_PRE_FARM_POOL_PUZZLE_HASH v, max_height = 0\<rparr>,
                          GENESIS_PRE_FARM_FARMER_PUZZLE_HASH v))
      | Some _ \<Rightarrow>
          (case pool_contract_puzzle_hash (proof_of_space request) of
             Some h \<Rightarrow>
               Some (Continue (\<lparr>puzzle_hash = h, max_height = 0\<rparr>, farmer_puzzle_hash request))
           | None \<Rightarrow>
               (case pool_target request of
                  None \<Rightarrow> Some (Raise AssertionError)
                | Some target \<Rightarrow> Some (Continue (target, farmer_puzzle_hash request)))))"

text \<open>
  Lines 828-838: difficulty and sub-slot iterations; the loop over the finished sub
  slots keeps the last new value of each.
\<close>

fun new_values :: "EndOfSubSlotBundle list \<Rightarrow> nat \<times> nat \<Rightarrow> nat \<times> nat" where
  "new_values [] (difficulty, ssi) = (difficulty, ssi)"
| "new_values (sub_slot # rest) (difficulty, ssi) =
     new_values rest
       ((case new_difficulty (challenge_chain sub_slot) of Some d \<Rightarrow> d | None \<Rightarrow> difficulty),
        (case new_sub_slot_iters (challenge_chain sub_slot) of Some i \<Rightarrow> i | None \<Rightarrow> ssi))"

definition difficulty_and_iters ::
  "farming_view \<Rightarrow> EndOfSubSlotBundle list \<Rightarrow> (nat \<times> nat) flow option" where
  "difficulty_and_iters v slots =
     (case get_peak v of
        None \<Rightarrow> Some (Continue (DIFFICULTY_STARTING v, SUB_SLOT_ITERS_STARTING v))
      | Some peak \<Rightarrow>
          if height peak \<le> MAX_SUB_SLOT_BLOCKS v
          then Some (Continue (DIFFICULTY_STARTING v, SUB_SLOT_ITERS_STARTING v))
          else
            flow_bind (of_outcome (block_record v (prev_hash peak)))
              (\<lambda>parent. flow_bind (of_outcome (uint64 (int (weight peak) - int (weight parent))))
                 (\<lambda>difficulty. Some (Continue (new_values slots (difficulty, sub_slot_iters peak))))))"

text \<open>
  Lines 856-863: the timestamp. The loop walks from \<open>prev_b\<close> back to the nearest block
  that is a transaction block or has height 0, or to \<open>None\<close>.
\<close>

partial_function (option) nearest_transaction_block ::
  "farming_view \<Rightarrow> BlockRecord option \<Rightarrow> BlockRecord option option" where
  "nearest_transaction_block v current =
     (case current of
        None \<Rightarrow> Some None
      | Some b \<Rightarrow>
          if \<not> is_transaction_block b \<and> height b \<noteq> 0
          then nearest_transaction_block v (try_block_record v (prev_hash b))
          else Some (Some b))"

declare nearest_transaction_block.simps [code]

definition block_timestamp :: "farming_view \<Rightarrow> BlockRecord option \<Rightarrow> nat flow option" where
  "block_timestamp v prev_b =
     flow_bind (of_outcome (uint64 (int (time v))))
       (\<lambda>now.
          case nearest_transaction_block v prev_b of
            None \<Rightarrow> None
          | Some None \<Rightarrow> Some (Continue now)
          | Some (Some current) \<Rightarrow>
              (case timestamp current of
                 None \<Rightarrow> Some (Raise AssertionError)
               | Some t \<Rightarrow>
                   if now \<le> t then of_outcome (uint64 (int (t + 1))) else Some (Continue now)))"

text \<open>Lines 840-853: the iterations.\<close>

definition iterations ::
  "farming_view \<Rightarrow> DeclareProofOfSpace \<Rightarrow> bytes32 \<Rightarrow> nat \<Rightarrow> nat \<Rightarrow> (nat \<times> nat) flow option" where
  "iterations v request quality difficulty ssi =
     flow_bind
       (of_outcome (calculate_iterations_quality v (DIFFICULTY_CONSTANT_FACTOR v) quality
                      (proof_size (proof_of_space request)) difficulty (challenge_chain_sp request)))
       (\<lambda>required_iters. flow_bind
          (of_outcome (calculate_sp_iters v ssi (signage_point_index request)))
          (\<lambda>sp_iters. flow_bind
             (of_outcome (calculate_ip_iters v ssi (signage_point_index request) required_iters))
             (\<lambda>ip_iters. Some (Continue (sp_iters, ip_iters)))))"

text \<open>
  Lines 666-863 together: everything the handler does before it makes the unfinished
  block. It ends with the quality string and the arguments of the first call of
  \<open>create_unfinished_block\<close>.
\<close>

definition assemble ::
  "farming_view \<Rightarrow> DeclareProofOfSpace \<Rightarrow> (bytes32 \<times> block_args) flow option" where
  "assemble v request =
     flow_bind (resolve_signage_point v request)
       (\<lambda>(sp_vdfs, cc_challenge_hash, pos_sub_slot, total_iters_pos_slot, quality).
     flow_bind (grab_mempool v)
       (\<lambda>(aggregate_signature, block_generator, additions, removals).
     flow_bind (previous_block v request sp_vdfs pos_sub_slot)
       (\<lambda>prev_b.
     flow_bind (finished_sub_slots_for v prev_b cc_challenge_hash pos_sub_slot)
       (\<lambda>slots.
     flow_bind (targets v request prev_b)
       (\<lambda>(target, farmer_ph).
     flow_bind (difficulty_and_iters v slots)
       (\<lambda>(difficulty, ssi).
     flow_bind (iterations v request quality difficulty ssi)
       (\<lambda>(sp_iters, ip_iters).
     flow_bind (block_timestamp v prev_b)
       (\<lambda>ts.
          Some (Continue (quality,
            \<lparr>arg_total_iters_pos_slot = total_iters_pos_slot,
             arg_sub_slot_iters = ssi,
             arg_signage_point_index = signage_point_index request,
             arg_sp_iters = sp_iters,
             arg_ip_iters = ip_iters,
             arg_proof_of_space = proof_of_space request,
             arg_cc_challenge_hash = cc_challenge_hash,
             arg_farmer_ph = farmer_ph,
             arg_pool_target = target,
             arg_signatures = request,
             arg_sp_vdfs = sp_vdfs,
             arg_timestamp = ts,
             arg_block_generator = block_generator,
             arg_aggregate_signature = aggregate_signature,
             arg_additions = additions,
             arg_removals = removals,
             arg_prev_b = prev_b,
             arg_finished_sub_slots = slots\<rparr>))))))))))"

text \<open>
  What the handlers do to the store and to the farmer, in order:
  \<open>full_node_store.add_candidate_block(quality_string, height, block, backup)\<close>,
  \<open>peer.send_message(make_msg(...))\<close> and \<open>full_node.respond_unfinished_block\<close>.
\<close>

datatype effect =
    Add_candidate_block bytes32 nat UnfinishedBlock bool
  | Send_message Message
  | Respond_unfinished_block UnfinishedBlock

text \<open>
  The arguments of the second call of \<open>create_unfinished_block\<close> (lines 912-935): those of
  the first with \<open>None, G2Element(), None, None\<close> for the generator, the aggregate
  signature, the additions and the removals.
\<close>

definition backup_args :: "block_args \<Rightarrow> block_args" where
  "backup_args args =
     args\<lparr>arg_block_generator := None, arg_aggregate_signature := G2Element,
          arg_additions := None, arg_removals := None\<rparr>"

text \<open>
  Lines 866-940: the unfinished block, its height, the candidate, the request to the
  farmer and the backup. \<open>bytes([0] * 32)\<close> is the hash 0.
\<close>

definition store_and_request ::
  "farming_view \<Rightarrow> bytes32 \<Rightarrow> block_args \<Rightarrow> Message option outcome \<times> effect list" where
  "store_and_request v quality args =
     (case create_unfinished_block v args of
        Raises e \<Rightarrow> (Raises e, [])
      | Returns unfinished_block \<Rightarrow>
          (case (case arg_prev_b args of
                   Some prev_b \<Rightarrow> uint32 (int (height prev_b + 1))
                 | None \<Rightarrow> uint32 0) of
             Raises e \<Rightarrow> (Raises e, [])
           | Returns h \<Rightarrow>
               let message = request_signed_values quality
                     (foliage_block_data_hash unfinished_block)
                     (if is_transaction_block_ub unfinished_block
                      then foliage_transaction_block_hash unfinished_block else Some 0);
                   effects = [Add_candidate_block quality h unfinished_block False,
                              Send_message message]
               in case send_message v message of
                    Some e \<Rightarrow> (Raises e, effects)
                  | None \<Rightarrow>
                      if is_transaction_block_ub unfinished_block
                         \<and> transactions_generator unfinished_block \<noteq> None
                      then
                        (case create_unfinished_block v (backup_args args) of
                           Raises e \<Rightarrow> (Raises e, effects)
                         | Returns unfinished_block_backup \<Rightarrow>
                             (Returns None,
                              effects @ [Add_candidate_block quality h unfinished_block_backup True]))
                      else (Returns None, effects)))"

text \<open>
  \<open>declare_proof_of_space\<close> (lines 655-940): the outcome of the handler and what it has
  done, or \<open>None\<close> when one of its loops does not end.
\<close>

definition declare_proof_of_space ::
  "farming_view \<Rightarrow> DeclareProofOfSpace \<Rightarrow> (Message option outcome \<times> effect list) option" where
  "declare_proof_of_space v request =
     (if get_sync_mode v then Some (Returns None, [])
      else
        (case assemble v request of
           None \<Rightarrow> None
         | Some Return_None \<Rightarrow> Some (Returns None, [])
         | Some (Raise e) \<Rightarrow> Some (Raises e, [])
         | Some (Continue (quality, args)) \<Rightarrow> Some (store_and_request v quality args)))"

text \<open>
  Lines 969-978 of \<open>signed_values\<close>: the candidate with the signatures of the farmer.
\<close>

definition sign_candidate :: "UnfinishedBlock \<Rightarrow> SignedValues \<Rightarrow> UnfinishedBlock" where
  "sign_candidate candidate farmer_request =
     (let fsb2 = candidate\<lparr>foliage_block_data_signature :=
                   signed_foliage_block_data_signature farmer_request\<rparr>
      in if is_transaction_block_ub candidate
         then fsb2\<lparr>foliage_transaction_block_signature :=
                Some (signed_foliage_transaction_block_signature farmer_request)\<rparr>
         else fsb2)"

text \<open>\<open>signed_values\<close> (lines 944-1004).\<close>

definition signed_values ::
  "farming_view \<Rightarrow> SignedValues \<Rightarrow> Message option outcome \<times> effect list" where
  "signed_values v farmer_request =
     (case get_candidate_block v (quality_string farmer_request) of
        None \<Rightarrow> (Returns None, [])
      | Some (h, candidate) \<Rightarrow>
          if \<not> verify v (plot_public_key (reward_chain_block_proof_of_space candidate))
                   (foliage_block_data_hash candidate)
                   (signed_foliage_block_data_signature farmer_request)
          then (Returns None, [])
          else
            let new_candidate = sign_candidate candidate farmer_request
            in if \<not> has_valid_pool_sig v new_candidate then (Returns None, [])
               else
                 (case respond_unfinished_block v new_candidate of
                    None \<Rightarrow> (Returns None, [Respond_unfinished_block new_candidate])
                  | Some e \<Rightarrow>
                      if \<not> is_Exception e
                      then (Raises e, [Respond_unfinished_block new_candidate])
                      else
                        (case get_candidate_block_backup v (quality_string farmer_request) of
                           None \<Rightarrow> (Returns None, [Respond_unfinished_block new_candidate])
                         | Some (h_backup, unfinished_block) \<Rightarrow>
                             let message = request_signed_values (quality_string farmer_request)
                                   (foliage_block_data_hash unfinished_block)
                                   (foliage_transaction_block_hash unfinished_block);
                                 effects = [Respond_unfinished_block new_candidate,
                                    Add_candidate_block (quality_string farmer_request) h_backup
                                      unfinished_block False,
                                    Send_message message]
                             in case send_message v message of
                                  Some e2 \<Rightarrow> (Raises e2, effects)
                                | None \<Rightarrow> (Returns None, effects))))"

text \<open>
  An example. The chain has the transaction block 1 (height 0, timestamp 100), then the
  blocks 2 and 3, which are not transaction blocks; block 3 is the peak. The farmer
  declares a proof of space for the signage point 50 (index 3) of the sub slot of
  challenge 40, whose reward-chain VDF starts at the challenge that block 2 infused.
  The clock of the node is at 50, behind the timestamp of block 1.
\<close>

definition example_block :: "nat \<Rightarrow> BlockRecord" where
  "example_block n =
     \<lparr>header_hash = n, prev_hash = n - 1, height = n - 1, weight = 10 * n,
      is_transaction_block = (n = 1), timestamp = (if n = 1 then Some 100 else None),
      reward_infusion_new_challenge = 10 + n, finished_reward_slot_hashes = None,
      sub_slot_iters = 1024\<rparr>"

definition example_unfinished_block :: "block_args \<Rightarrow> UnfinishedBlock" where
  "example_unfinished_block args =
     \<lparr>reward_chain_block_proof_of_space = arg_proof_of_space args,
      foliage_block_data_hash = 1000 + arg_timestamp args,
      foliage_block_data_signature = 0,
      foliage_transaction_block_hash = Some (2000 + arg_timestamp args),
      foliage_transaction_block_signature = None,
      transactions_generator = arg_block_generator args,
      is_transaction_block_ub = True\<rparr>"

definition example_farm :: farming_view where
  "example_farm =
     \<lparr>get_sync_mode = False,
      get_signage_point = (\<lambda>sp. if sp = 50
         then Some \<lparr>cc_vdf = Some \<lparr>challenge = 40, number_of_iterations = 8, vdf_output = 6\<rparr>,
                    rc_vdf = Some \<lparr>challenge = 12, number_of_iterations = 8, vdf_output = 7\<rparr>\<rparr>
         else None),
      get_hash = (\<lambda>x. x + 53),
      GENESIS_CHALLENGE = 0,
      get_sub_slot = (\<lambda>c. if c = 40 then Some (example_bundle 30 64 64, 0, 5000) else None),
      verify_and_get_quality_string = (\<lambda>_ _ _. Some 70),
      get_peak = Some (example_block 3),
      block_record = (\<lambda>h. if 1 \<le> h \<and> h \<le> 3 then Returns (example_block h) else Raises KeyError),
      try_block_record = (\<lambda>h. if 1 \<le> h \<and> h \<le> 3 then Some (example_block h) else None),
      create_bundle_from_mempool =
        (\<lambda>_. Returns (Some (\<lparr>coin_spends = 1, aggregated_signature = 9\<rparr>, [1], [2]))),
      previous_generator = None,
      best_solution_generator_from_template = (\<lambda>_ _. Returns 78),
      simple_solution_generator = (\<lambda>_. Returns 77),
      finished_sub_slots = [None],
      reward_chain_get_hash = (\<lambda>_. 0),
      get_finished_sub_slots = (\<lambda>_ _. Returns (Some [])),
      GENESIS_PRE_FARM_POOL_PUZZLE_HASH = 1,
      GENESIS_PRE_FARM_FARMER_PUZZLE_HASH = 2,
      MAX_SUB_SLOT_BLOCKS = 128,
      DIFFICULTY_STARTING = 7,
      SUB_SLOT_ITERS_STARTING = 1024,
      DIFFICULTY_CONSTANT_FACTOR = 2,
      calculate_iterations_quality = (\<lambda>_ _ _ _ _. Returns 300),
      calculate_sp_iters = (\<lambda>_ _. Returns 48),
      calculate_ip_iters = (\<lambda>_ _ _. Returns 400),
      time = 50,
      create_unfinished_block = (\<lambda>args. Returns (example_unfinished_block args)),
      send_message = (\<lambda>_. None),
      get_candidate_block = (\<lambda>q. if q = 70
         then Some (2, example_unfinished_block undefined) else None),
      get_candidate_block_backup = (\<lambda>_. None),
      verify = (\<lambda>_ _ _. True),
      has_valid_pool_sig = (\<lambda>_. True),
      respond_unfinished_block = (\<lambda>_. Some ValueError)\<rparr>"

definition example_declaration :: DeclareProofOfSpace where
  "example_declaration =
     \<lparr>challenge_hash = 40, challenge_chain_sp = 50, signage_point_index = 3,
      reward_chain_sp = 60,
      proof_of_space = \<lparr>pool_contract_puzzle_hash = None, plot_public_key = 5, proof_size = 32\<rparr>,
      challenge_chain_sp_signature = 3, reward_chain_sp_signature = 4,
      farmer_puzzle_hash = 8,
      pool_target = Some \<lparr>puzzle_hash = 9, max_height = 0\<rparr>,
      pool_signature = None\<rparr>"

text \<open>
  The same node with a signage point whose reward-chain VDF starts at a challenge (99)
  that no block of the chain has infused.
\<close>

definition example_farm_off_chain :: farming_view where
  "example_farm_off_chain =
     example_farm\<lparr>get_signage_point := (\<lambda>sp. if sp = 50
         then Some \<lparr>cc_vdf = Some \<lparr>challenge = 40, number_of_iterations = 8, vdf_output = 6\<rparr>,
                    rc_vdf = Some \<lparr>challenge = 99, number_of_iterations = 8, vdf_output = 7\<rparr>\<rparr>
         else None)\<rparr>"


section \<open>Signage points: \<open>new_signage_point_or_end_of_sub_slot\<close>\<close>

record NewSignagePointOrEndOfSubSlot =
  prev_challenge_hash :: "bytes32 option"
  challenge_hash :: bytes32
  index_from_challenge :: nat
  last_rc_infusion :: bytes32

text \<open>
  What \<open>await peer.request_signage_point_or_end_of_sub_slot(...)\<close> can answer: a
  \<open>RespondEndOfSubSlot\<close> with its bundle, or anything else (\<open>None\<close> after the timeout, a
  \<open>RespondSignagePoint\<close>, ...).
\<close>

datatype peer_response = RespondEndOfSubSlot EndOfSubSlotBundle | OtherResponse

text \<open>
  What the handler reads of the node and of the peer.
  \<^item> \<open>get_sync_mode\<close>, \<open>get_signage_point_by_index\<close> (is the answer not \<open>None\<close>) and
    \<open>have_newer_signage_point\<close> are read once, on entry;
  \<^item> \<open>get_sub_slot t c\<close> tells whether \<open>full_node_store.get_sub_slot(c)\<close> is not \<open>None\<close>
    when the handler has received \<open>t\<close> answers from the peer: the store can change while
    the handler is suspended at an \<open>await\<close>;
  \<^item> \<open>peer_request t q\<close> is the outcome of the request \<open>q\<close> sent to the peer after \<open>t\<close>
    answers, and \<open>respond_end_of_sub_slot i eos\<close> the outcome of the \<open>i\<close>-th call of
    \<open>self.respond_end_of_sub_slot\<close> of the replay: \<open>None\<close> when it returns, the exception
    when it raises.
\<close>

record sub_slot_view =
  get_sync_mode :: bool
  get_signage_point_by_index :: "bytes32 \<Rightarrow> nat \<Rightarrow> bytes32 \<Rightarrow> bool"
  have_newer_signage_point :: "bytes32 \<Rightarrow> nat \<Rightarrow> bytes32 \<Rightarrow> bool"
  get_sub_slot :: "nat \<Rightarrow> bytes32 \<Rightarrow> bool"
  GENESIS_CHALLENGE :: bytes32
  peer_request :: "nat \<Rightarrow> Message \<Rightarrow> peer_response outcome"
  respond_end_of_sub_slot :: "nat \<Rightarrow> EndOfSubSlotBundle \<Rightarrow> exn option"

text \<open>
  \<open>for eos in reversed(collected_eos): await self.respond_end_of_sub_slot(eos, peer)\<close>
  (lines 492-493), from the \<open>i\<close>-th call on, over the bundles already reversed: the
  exception that ended the loop, if any, and the bundles handed to the handler, in order.
\<close>

fun replay ::
  "sub_slot_view \<Rightarrow> nat \<Rightarrow> EndOfSubSlotBundle list \<Rightarrow> exn option \<times> EndOfSubSlotBundle list" where
  "replay v i [] = (None, [])"
| "replay v i (eos # rest) =
     (case respond_end_of_sub_slot v i eos of
        Some e \<Rightarrow> (Some e, [eos])
      | None \<Rightarrow> (fst (replay v (Suc i) rest), eos # snd (replay v (Suc i) rest)))"

text \<open>
  The loop \<open>for _ in range(30)\<close> (lines 470-503) with \<open>remaining\<close> iterations to go, and
  the \<open>return None\<close> after it (line 505). The result is the outcome of the handler, the
  requests sent to the peer and the bundles handed to \<open>respond_end_of_sub_slot\<close>, both in
  order.
\<close>

fun backfill ::
  "sub_slot_view \<Rightarrow> nat \<Rightarrow> EndOfSubSlotBundle list \<Rightarrow> bytes32 \<Rightarrow> bytes32 \<Rightarrow> nat \<Rightarrow>
     Message option outcome \<times> Message list \<times> EndOfSubSlotBundle list" where
  "backfill v 0 collected_eos challenge_hash_to_request last_rc num_non_empty_sub_slots_seen =
     (Returns None, [], [])"
| "backfill v (Suc remaining) collected_eos challenge_hash_to_request last_rc
       num_non_empty_sub_slots_seen =
     (if num_non_empty_sub_slots_seen \<ge> 3 then (Returns None, [], [])
      else
        let full_node_request =
              request_signage_point_or_end_of_sub_slot challenge_hash_to_request 0 last_rc
        in case peer_request v (length collected_eos) full_node_request of
             Raises e \<Rightarrow> (Raises e, [full_node_request], [])
           | Returns OtherResponse \<Rightarrow> (Returns None, [full_node_request], [])
           | Returns (RespondEndOfSubSlot end_of_slot_bundle) \<Rightarrow>
               let collected = collected_eos @ [end_of_slot_bundle];
                   cc = challenge_chain_end_of_slot_vdf (challenge_chain end_of_slot_bundle);
                   rc = end_of_slot_vdf (reward_chain end_of_slot_bundle)
               in if get_sub_slot v (length collected) (challenge cc)
                     \<or> challenge cc = GENESIS_CHALLENGE v
                  then
                    (case fst (replay v 0 (rev collected)) of
                       Some e \<Rightarrow> (Raises e, [full_node_request], snd (replay v 0 (rev collected)))
                     | None \<Rightarrow> (Returns None, [full_node_request], snd (replay v 0 (rev collected))))
                  else
                    let r = backfill v remaining collected (challenge cc) (challenge rc)
                              (if number_of_iterations cc \<noteq> number_of_iterations rc
                               then num_non_empty_sub_slots_seen + 1
                               else num_non_empty_sub_slots_seen)
                    in (fst r, full_node_request # fst (snd r), snd (snd r)))"








section \<open>Results\<close>

subsection \<open>C10: the acknowledgement of \<open>send_transaction\<close>\<close>

text \<open>
  C10. For every SendTransaction request: when the admission status is not SUCCESS but the
  spend bundle of that name is retrievable from the mempool, the TransactionAck reports
  SUCCESS with no error; in every other case (status SUCCESS, or the bundle is not in the
  mempool) it reports the admission status itself and the name of the error when there
  is one.
\<close>

theorem send_transaction_ack:
  "send_transaction val spend_name (status, error) bundle =
     Some (if status \<noteq> SUCCESS \<and> bundle \<noteq> None
           then transaction_ack spend_name (val SUCCESS) None
           else transaction_ack spend_name (val status) (map_option name error))"
  by (cases error) (simp_all add: send_transaction_def Let_def)

theorem send_transaction_ack_witness:
  "send_transaction (\<lambda>s. case s of SUCCESS \<Rightarrow> 1 | PENDING \<Rightarrow> 2 | FAILED \<Rightarrow> 3) 7
       (FAILED, Some (Err ''ALREADY_INCLUDING_TRANSACTION'')) (Some (0::nat))
     = Some (transaction_ack 7 1 None)
   \<and> send_transaction (\<lambda>s. case s of SUCCESS \<Rightarrow> 1 | PENDING \<Rightarrow> 2 | FAILED \<Rightarrow> 3) 7
       (FAILED, Some (Err ''DOUBLE_SPEND'')) (None :: nat option)
     = Some (transaction_ack 7 3 (Some ''DOUBLE_SPEND''))"
  by (simp add: send_transaction_ack)

subsection \<open>C1: advertisements that are dropped\<close>

text \<open>
  C1. For every NewTransaction message: if the node is in sync mode or not yet synced, or
  the mempool manager has seen the id, or \<open>is_fee_enough(fees, cost)\<close> is false, then
  \<open>new_transaction\<close> returns \<open>None\<close> and leaves the node as it was: no task is created,
  nothing is added to \<open>pending_tx_request\<close>, \<open>peers_with_tx\<close> or \<open>tx_fetch_tasks\<close>, and,
  no task being created, no RequestTransaction is sent.
\<close>

theorem new_transaction_dropped:
  assumes "sync_mode n \<or> \<not> synced n \<or> seen n (transaction_id tx)
           \<or> \<not> is_fee_enough n (fees tx) (cost tx)"
  shows "new_transaction tx peer task_id n = (None, n)"
  using assms by (auto simp: new_transaction_def)

theorem new_transaction_dropped_witness:
  "new_transaction \<lparr>transaction_id = 5, cost = 1000, fees = 0\<rparr> 1 9
     \<lparr>sync_mode = False, synced = True, seen = (\<lambda>_. False),
      is_fee_enough = (\<lambda>fee cost. 5 * cost \<le> fee),
      pending_tx_request = Map.empty, peers_with_tx = Map.empty, tx_fetch_tasks = Map.empty,
      server = Some {1}, pop_choice = (\<lambda>_. 0), created_tasks = []\<rparr>
   = (None,
     \<lparr>sync_mode = False, synced = True, seen = (\<lambda>_. False),
      is_fee_enough = (\<lambda>fee cost. 5 * cost \<le> fee),
      pending_tx_request = Map.empty, peers_with_tx = Map.empty, tx_fetch_tasks = Map.empty,
      server = Some {1}, pop_choice = (\<lambda>_. 0), created_tasks = []\<rparr>)"
  by (rule new_transaction_dropped) simp


subsection \<open>C3: the fetch task is bounded and cleans up\<close>









subsection \<open>C2: single-flight fan-in\<close>

lemma cleanup_fields:
  "pending_tx_request (cleanup tx_id task_id n) = (pending_tx_request n)(tx_id := None)"
  "seen (cleanup tx_id task_id n) = seen n"
  by (auto simp: cleanup_def Let_def)

lemma remove1_in_flight:
  "distinct (map snd xs) \<Longrightarrow> (a, b) \<in> set xs \<Longrightarrow>
   distinct (map snd (remove1 (a, b) xs)) \<and> b \<notin> snd ` set (remove1 (a, b) xs)
   \<and> set (remove1 (a, b) xs) \<subseteq> set xs"
  by (induction xs) (auto simp: image_iff)

lemma remove1_distinct_ids:
  "distinct (map snd xs) \<Longrightarrow> distinct (map snd (remove1 x xs))"
  by (induction xs) (auto simp: image_iff dest: notin_set_remove1)

lemma new_transaction_pending:
  "pending_tx_request (snd (new_transaction tx peer task_id n)) =
     (if starts_fetch tx n then (pending_tx_request n)(transaction_id tx \<mapsto> peer)
      else pending_tx_request n)"
  by (simp add: new_transaction_def starts_fetch_def split: option.splits)

lemma new_transaction_created:
  "created_tasks (snd (new_transaction tx peer task_id n)) =
     (if starts_fetch tx n then created_tasks n @ [(task_id, transaction_id tx)]
      else created_tasks n)"
  by (simp add: new_transaction_def starts_fetch_def split: option.splits)

lemma new_transaction_seen:
  "seen (snd (new_transaction tx peer task_id n)) = seen n"
  by (simp add: new_transaction_def split: option.splits)

lemma step_new_transaction_marked:
  assumes "marked s"
  shows "marked (step (Peer_sends_NewTransaction tx peer task_id) s)"
proof (cases "starts_fetch tx (node s)")
  case False
  with assms show ?thesis
    by (simp add: marked_def Let_def new_transaction_pending new_transaction_created
        new_transaction_seen)
next
  case True
  let ?s' = "step (Peer_sends_NewTransaction tx peer task_id) s"
  from True have fresh: "transaction_id tx \<notin> dom (pending_tx_request (node s))"
    "\<not> seen (node s) (transaction_id tx)"
    by (simp_all add: starts_fetch_def)
  with assms have new: "transaction_id tx \<notin> snd ` set (in_flight s)"
    unfolding marked_def by blast
  from True have f: "in_flight ?s' = in_flight s @ [(task_id, transaction_id tx)]"
    by (simp add: Let_def new_transaction_created)
  from True have p: "pending_tx_request (node ?s')
                     = (pending_tx_request (node s))(transaction_id tx \<mapsto> peer)"
    by (simp add: Let_def new_transaction_pending)
  have se: "seen (node ?s') = seen (node s)"
    by (simp add: Let_def new_transaction_seen)
  from assms new have "distinct (map snd (in_flight s @ [(task_id, transaction_id tx)]))"
    unfolding marked_def by simp
  moreover have "x \<in> dom ((pending_tx_request (node s))(transaction_id tx \<mapsto> peer))
                 \<or> seen (node s) x"
    if "x \<in> snd ` set (in_flight s @ [(task_id, transaction_id tx)])" for x
  proof (cases "x = transaction_id tx")
    case True
    then show ?thesis by simp
  next
    case False
    with that have "x \<in> snd ` set (in_flight s)" by auto
    with assms have "x \<in> dom (pending_tx_request (node s)) \<or> seen (node s) x"
      unfolding marked_def by blast
    then show ?thesis by auto
  qed
  ultimately show ?thesis
    unfolding marked_def p f se by blast
qed

lemma respond_transaction_fields:
  "pending_tx_request (snd (respond_transaction spend_name seen_after n)) =
     (pending_tx_request n)(spend_name := None)"
  "seen (snd (respond_transaction spend_name seen_after n)) = seen_after"
  by (auto simp: respond_transaction_def Let_def)

lemma step_respond_marked:
  assumes "marked s"
    and "\<forall>x \<in> snd ` set (in_flight s).
           x = spend_name \<or> x \<notin> dom (pending_tx_request (node s)) \<longrightarrow> seen_after x"
  shows "marked (step (Peer_sends_RespondTransaction spend_name seen_after) s)"
proof -
  let ?s' = "step (Peer_sends_RespondTransaction spend_name seen_after) s"
  have p: "pending_tx_request (node ?s') = (pending_tx_request (node s))(spend_name := None)"
    by (simp add: respond_transaction_fields)
  have se: "seen (node ?s') = seen_after"
    by (simp add: respond_transaction_fields)
  have f: "in_flight ?s' = in_flight s"
    by simp
  have "x \<in> dom ((pending_tx_request (node s))(spend_name := None)) \<or> seen_after x"
    if "x \<in> snd ` set (in_flight s)" for x
  proof (cases "x = spend_name \<or> x \<notin> dom (pending_tx_request (node s))")
    case True
    with that assms(2) show ?thesis by blast
  next
    case False
    then show ?thesis by simp
  qed
  moreover from assms(1) have "distinct (map snd (in_flight s))"
    unfolding marked_def by blast
  ultimately show ?thesis
    unfolding marked_def p f se by blast
qed

lemma step_pops_marked:
  assumes "marked s"
  shows "marked (step (Fetch_task_pops task_id tx_id) s)"
proof -
  let ?s' = "step (Fetch_task_pops task_id tx_id) s"
  have "pending_tx_request (node ?s') = pending_tx_request (node s)"
    by (simp split: option.splits)
  moreover have "in_flight ?s' = in_flight s"
    by (simp split: option.splits)
  moreover have "seen (node ?s') = seen (node s)"
    by (simp split: option.splits)
  ultimately show ?thesis
    using assms unfolding marked_def by simp
qed

lemma step_world_marked:
  assumes "marked s"
    and "\<forall>x \<in> snd ` set (in_flight s). x \<notin> dom (pending_tx_request (node s)) \<longrightarrow> se x"
  shows "marked (step (World_changes sm sy se sv) s)"
proof -
  let ?s' = "step (World_changes sm sy se sv) s"
  have p: "pending_tx_request (node ?s') = pending_tx_request (node s)" by simp
  have f: "in_flight ?s' = in_flight s" by simp
  have e: "seen (node ?s') = se" by simp
  from assms show ?thesis
    unfolding marked_def p f e by blast
qed

lemma step_finishes_marked:
  assumes "marked s"
  shows "marked (step (Fetch_task_finishes task_id tx_id) s)"
proof (cases "(task_id, tx_id) \<in> set (in_flight s)")
  case False
  with assms show ?thesis by simp
next
  case True
  let ?s' = "step (Fetch_task_finishes task_id tx_id) s"
  let ?rest = "remove1 (task_id, tx_id) (in_flight s)"
  from True have p: "pending_tx_request (node ?s') = (pending_tx_request (node s))(tx_id := None)"
    by (simp add: cleanup_fields)
  from True have e: "seen (node ?s') = seen (node s)"
    by (simp add: cleanup_fields)
  from True have f: "in_flight ?s' = ?rest"
    by simp
  from assms have d: "distinct (map snd (in_flight s))"
    unfolding marked_def by blast
  have r: "distinct (map snd ?rest) \<and> tx_id \<notin> snd ` set ?rest \<and> set ?rest \<subseteq> set (in_flight s)"
    using d True by (rule remove1_in_flight)
  have "x \<in> dom ((pending_tx_request (node s))(tx_id := None)) \<or> seen (node s) x"
    if "x \<in> snd ` set ?rest" for x
  proof -
    from that r have "x \<noteq> tx_id" by blast
    moreover from that r have "x \<in> snd ` set (in_flight s)" by blast
    with assms have "x \<in> dom (pending_tx_request (node s)) \<or> seen (node s) x"
      unfolding marked_def by blast
    ultimately show ?thesis by auto
  qed
  with r show ?thesis
    unfolding marked_def p f e by blast
qed

lemma step_cancelled_marked:
  assumes "marked s"
  shows "marked (step (Fetch_task_cancelled_unstarted task_id tx_id) s)"
proof -
  let ?s' = "step (Fetch_task_cancelled_unstarted task_id tx_id) s"
  let ?rest = "remove1 (task_id, tx_id) (in_flight s)"
  have p: "node ?s' = node s" by simp
  have f: "in_flight ?s' = ?rest" by simp
  from assms have "distinct (map snd ?rest)"
    unfolding marked_def by (simp add: remove1_distinct_ids)
  moreover have "set ?rest \<subseteq> set (in_flight s)" by (rule set_remove1_subset)
  ultimately show ?thesis
    using assms unfolding marked_def p f by blast
qed

lemma run_marked: "marked s \<Longrightarrow> answered_stay_seen evs s \<Longrightarrow> marked (run evs s)"
proof (induction evs arbitrary: s)
  case Nil
  then show ?case by simp
next
  case (Cons e es)
  from Cons.prems(2) have u: "answered_stay_seen es (step e s)" by simp
  have "marked (step e s)"
  proof (cases e)
    case (Peer_sends_NewTransaction tx peer task_id)
    with Cons.prems(1) show ?thesis by (simp only: step_new_transaction_marked)
  next
    case (Peer_sends_RespondTransaction spend_name seen_after)
    with Cons.prems(2)
    have n: "\<forall>x \<in> snd ` set (in_flight s).
           x = spend_name \<or> x \<notin> dom (pending_tx_request (node s)) \<longrightarrow> seen_after x"
      by simp
    show ?thesis
      unfolding Peer_sends_RespondTransaction using Cons.prems(1) n by (rule step_respond_marked)
  next
    case (Fetch_task_pops task_id tx_id)
    with Cons.prems(1) show ?thesis by (simp only: step_pops_marked)
  next
    case (Fetch_task_finishes task_id tx_id)
    with Cons.prems(1) show ?thesis by (simp only: step_finishes_marked)
  next
    case (Fetch_task_cancelled_unstarted task_id tx_id)
    with Cons.prems(1) show ?thesis by (simp only: step_cancelled_marked)
  next
    case (World_changes sm sy se sv)
    with Cons.prems(2)
    have n: "\<forall>x \<in> snd ` set (in_flight s). x \<notin> dom (pending_tx_request (node s)) \<longrightarrow> se x"
      by simp
    show ?thesis
      unfolding World_changes using Cons.prems(1) n by (rule step_world_marked)
  qed
  then have "marked (run es (step e s))" using u by (rule Cons.IH)
  then show ?case by simp
qed


text \<open>
  C2 as stated ends with: hence at most one fetch task is ever in flight per transaction
  id. That part fails. Peer 1 advertises id 5 and task 7 starts; a RespondTransaction
  whose bytes hash to 5 arrives and clears the marker while task 7 is still sleeping, and
  the mempool does not keep the transaction as seen; peer 2 advertises id 5 and task 8
  starts. Tasks 7 and 8 are then both in flight for id 5.
\<close>

theorem single_flight_counterexample:
  "in_flight (run [Peer_sends_NewTransaction \<lparr>transaction_id = 5, cost = 10, fees = 50\<rparr> 1 7,
                   Peer_sends_RespondTransaction 5 (\<lambda>_. False),
                   Peer_sends_NewTransaction \<lparr>transaction_id = 5, cost = 10, fees = 50\<rparr> 2 8]
               \<lparr>node = idle_node, in_flight = []\<rparr>) = [(7, 5), (8, 5)]
   \<and> \<not> single_flight
        (run [Peer_sends_NewTransaction \<lparr>transaction_id = 5, cost = 10, fees = 50\<rparr> 1 7,
              Peer_sends_RespondTransaction 5 (\<lambda>_. False),
              Peer_sends_NewTransaction \<lparr>transaction_id = 5, cost = 10, fees = 50\<rparr> 2 8]
           \<lparr>node = idle_node, in_flight = []\<rparr>)"
  by (simp add: single_flight_def idle_node_def new_transaction_def respond_transaction_def Let_def)

text \<open>
  C2, amended. If the id of a NewTransaction is in \<open>pending_tx_request\<close>, the handler
  returns \<open>None\<close>, creates no task, leaves \<open>pending_tx_request\<close> and \<open>tx_fetch_tasks\<close> as
  they are and sends nothing; when the advertisement passes the sync, seen and fee tests
  it adds the peer to the fan-out set of the id (creating the set when it is missing), and
  changes nothing else in \<open>peers_with_tx\<close>. Hence, in every run of handlers and fetch tasks
  that starts with no task in flight and in which a transaction that arrives while its
  fetch task is in flight is kept as seen by the mempool until that task ends, at most
  one fetch task is in flight per transaction id.
\<close>

theorem new_transaction_fan_in:
  "(transaction_id tx \<in> dom (pending_tx_request n) \<longrightarrow>
      fst (new_transaction tx peer task_id n) = None
      \<and> created_tasks (snd (new_transaction tx peer task_id n)) = created_tasks n
      \<and> pending_tx_request (snd (new_transaction tx peer task_id n)) = pending_tx_request n
      \<and> tx_fetch_tasks (snd (new_transaction tx peer task_id n)) = tx_fetch_tasks n
      \<and> peers_with_tx (snd (new_transaction tx peer task_id n)) =
          (if \<not> sync_mode n \<and> synced n \<and> \<not> seen n (transaction_id tx)
              \<and> is_fee_enough n (fees tx) (cost tx)
           then (peers_with_tx n)(transaction_id tx \<mapsto>
                  (case peers_with_tx n (transaction_id tx) of
                     None \<Rightarrow> [peer]
                   | Some current_set \<Rightarrow>
                       if peer \<in> set current_set then current_set else current_set @ [peer]))
           else peers_with_tx n))
   \<and> (in_flight s = [] \<and> answered_stay_seen evs s \<longrightarrow> single_flight (run evs s))"
proof -
  have a: "fst (new_transaction tx peer task_id n) = None"
    by (simp add: new_transaction_def split: option.splits)
  have b: "created_tasks (snd (new_transaction tx peer task_id n)) = created_tasks n"
    if "transaction_id tx \<in> dom (pending_tx_request n)"
    using that by (simp add: new_transaction_created starts_fetch_def)
  have c: "pending_tx_request (snd (new_transaction tx peer task_id n)) = pending_tx_request n"
    if "transaction_id tx \<in> dom (pending_tx_request n)"
    using that by (simp add: new_transaction_pending starts_fetch_def)
  have d: "tx_fetch_tasks (snd (new_transaction tx peer task_id n)) = tx_fetch_tasks n"
    if "transaction_id tx \<in> dom (pending_tx_request n)"
    using that by (simp add: new_transaction_def split: option.splits)
  have e: "peers_with_tx (snd (new_transaction tx peer task_id n)) =
          (if \<not> sync_mode n \<and> synced n \<and> \<not> seen n (transaction_id tx)
              \<and> is_fee_enough n (fees tx) (cost tx)
           then (peers_with_tx n)(transaction_id tx \<mapsto>
                  (case peers_with_tx n (transaction_id tx) of
                     None \<Rightarrow> [peer]
                   | Some current_set \<Rightarrow>
                       if peer \<in> set current_set then current_set else current_set @ [peer]))
           else peers_with_tx n)"
    if "transaction_id tx \<in> dom (pending_tx_request n)"
    using that by (auto simp: new_transaction_def map_upd_triv split: option.splits)
  have f: "single_flight (run evs s)" if "in_flight s = []" "answered_stay_seen evs s"
  proof -
    from that(1) have "marked s" by (simp add: marked_def)
    then have "marked (run evs s)" using that(2) by (rule run_marked)
    then show ?thesis by (simp add: marked_def single_flight_def)
  qed
  from a b c d e f show ?thesis by blast
qed

theorem new_transaction_fan_in_witness:
  "fst (new_transaction \<lparr>transaction_id = 5, cost = 10, fees = 50\<rparr> 3 8 gossip_node) = None
   \<and> created_tasks (snd (new_transaction \<lparr>transaction_id = 5, cost = 10, fees = 50\<rparr> 3 8 gossip_node))
       = [(9, 5)]
   \<and> pending_tx_request (snd (new_transaction \<lparr>transaction_id = 5, cost = 10, fees = 50\<rparr> 3 8 gossip_node))
       = [5 \<mapsto> 1]
   \<and> peers_with_tx (snd (new_transaction \<lparr>transaction_id = 5, cost = 10, fees = 50\<rparr> 3 8 gossip_node))
       = [5 \<mapsto> [1, 2, 3]]
   \<and> answered_stay_seen
        [Peer_sends_NewTransaction \<lparr>transaction_id = 5, cost = 10, fees = 50\<rparr> 1 7,
         Peer_sends_RespondTransaction 5 (\<lambda>x. x = 5),
         Peer_sends_NewTransaction \<lparr>transaction_id = 5, cost = 10, fees = 50\<rparr> 2 8,
         Fetch_task_pops 7 5,
         Fetch_task_finishes 7 5,
         World_changes False True (\<lambda>_. False) (Some {1, 2}),
         Peer_sends_NewTransaction \<lparr>transaction_id = 5, cost = 10, fees = 50\<rparr> 2 8]
        \<lparr>node = idle_node, in_flight = []\<rparr>
   \<and> single_flight
        (run [Peer_sends_NewTransaction \<lparr>transaction_id = 5, cost = 10, fees = 50\<rparr> 1 7,
              Peer_sends_RespondTransaction 5 (\<lambda>x. x = 5),
              Peer_sends_NewTransaction \<lparr>transaction_id = 5, cost = 10, fees = 50\<rparr> 2 8,
              Fetch_task_pops 7 5,
              Fetch_task_finishes 7 5,
              World_changes False True (\<lambda>_. False) (Some {1, 2}),
              Peer_sends_NewTransaction \<lparr>transaction_id = 5, cost = 10, fees = 50\<rparr> 2 8]
           \<lparr>node = idle_node, in_flight = []\<rparr>)
   \<and> in_flight
        (run [Peer_sends_NewTransaction \<lparr>transaction_id = 5, cost = 10, fees = 50\<rparr> 1 7,
              Peer_sends_RespondTransaction 5 (\<lambda>x. x = 5),
              Peer_sends_NewTransaction \<lparr>transaction_id = 5, cost = 10, fees = 50\<rparr> 2 8,
              Fetch_task_pops 7 5,
              Fetch_task_finishes 7 5,
              World_changes False True (\<lambda>_. False) (Some {1, 2}),
              Peer_sends_NewTransaction \<lparr>transaction_id = 5, cost = 10, fees = 50\<rparr> 2 8]
           \<lparr>node = idle_node, in_flight = []\<rparr>) = [(8, 5)]"
  using new_transaction_fan_in [where tx = "\<lparr>transaction_id = 5, cost = 10, fees = 50\<rparr>"
      and peer = 3 and task_id = 8 and n = gossip_node
      and s = "\<lparr>node = idle_node, in_flight = []\<rparr>"
      and evs = "[Peer_sends_NewTransaction \<lparr>transaction_id = 5, cost = 10, fees = 50\<rparr> 1 7,
              Peer_sends_RespondTransaction 5 (\<lambda>x. x = 5),
              Peer_sends_NewTransaction \<lparr>transaction_id = 5, cost = 10, fees = 50\<rparr> 2 8,
              Fetch_task_pops 7 5,
              Fetch_task_finishes 7 5,
              World_changes False True (\<lambda>_. False) (Some {1, 2}),
              Peer_sends_NewTransaction \<lparr>transaction_id = 5, cost = 10, fees = 50\<rparr> 2 8]"]
  by (simp add: gossip_node_def idle_node_def new_transaction_def cleanup_def set_pop_def
      respond_transaction_def Let_def)


subsection \<open>C4: the backfill loop of \<open>new_signage_point_or_end_of_sub_slot\<close>\<close>

lemma replay_returned:
  "fst (replay v i xs) = None \<Longrightarrow> snd (replay v i xs) = xs"
  by (induction xs arbitrary: i) (simp_all split: option.splits)








lemma backfill_other:
  assumes "num < 3"
    and "peer_request v (length collected) (request_signage_point_or_end_of_sub_slot ch 0 rc)
           = Returns OtherResponse
         \<or> peer_request v (length collected) (request_signage_point_or_end_of_sub_slot ch 0 rc)
           = Raises e"
  shows "snd (snd (backfill v (Suc k) collected ch rc num)) = []"
    and "length (fst (snd (backfill v (Suc k) collected ch rc num))) = 1"
    and "fst (backfill v (Suc k) collected ch rc num) \<noteq> Returns (Some m)"
  using assms by auto








subsection \<open>C9: the order of mempool items\<close>

















lemma fee_per_cost_examples:
  "lt \<lparr>fee = 1, MempoolItem.cost = 3\<rparr> \<lparr>fee = 2, MempoolItem.cost = 5\<rparr> = Returns True"
  "lt \<lparr>fee = 1, MempoolItem.cost = 0\<rparr> \<lparr>fee = 2, MempoolItem.cost = 5\<rparr> = Raises ZeroDivisionError"
  "fee_per_cost \<lparr>fee = 1, MempoolItem.cost = 3\<rparr> = Returns (Fract 6004799503160661 18014398509481984)"
  "fee_per_cost \<lparr>fee = 9999999999, MempoolItem.cost = 10000000000\<rparr>
     = fee_per_cost \<lparr>fee = 10000000000, MempoolItem.cost = 10000000001\<rparr>"
  "lt \<lparr>fee = 9999999999, MempoolItem.cost = 10000000000\<rparr> \<lparr>fee = 10000000000, MempoolItem.cost = 10000000001\<rparr>
     = Returns False"
  by code_simp+


subsection \<open>Farming: helper facts\<close>

lemma flow_bind_simps [simp]:
  "flow_bind None f = None"
  "flow_bind (Some (Continue x)) f = f x"
  "flow_bind (Some Return_None) f = Some Return_None"
  "flow_bind (Some (Raise e)) f = Some (Raise e)"
  by (simp_all add: flow_bind_def)

lemma flow_bind_Continue:
  "flow_bind m f = Some (Continue y) \<longleftrightarrow> (\<exists>x. m = Some (Continue x) \<and> f x = Some (Continue y))"
  by (cases m) (auto simp: flow_bind_def split: flow.splits)

lemma of_outcome_Continue [simp]:
  "of_outcome r = Some (Continue x) \<longleftrightarrow> r = Returns x"
  by (cases r) (simp_all add: of_outcome_def)

lemma resolve_signage_point_unknown:
  assumes "get_signage_point v (challenge_chain_sp request) = None
           \<or> (signage_point_index request > 0
               \<and> (\<exists>sp rc. get_signage_point v (challenge_chain_sp request) = Some sp
                     \<and> rc_vdf sp = Some rc
                     \<and> get_hash v (vdf_output rc) \<noteq> reward_chain_sp request))"
  shows "resolve_signage_point v request = Some Return_None"
  using assms by (auto simp: resolve_signage_point_def)

lemma resolve_signage_point_no_rc_vdf:
  assumes "get_signage_point v (challenge_chain_sp request) = Some sp"
    "signage_point_index request > 0" "rc_vdf sp = None"
  shows "resolve_signage_point v request = Some (Raise AssertionError)"
  using assms by (simp add: resolve_signage_point_def)


lemma assemble_unknown_signage_point:
  "resolve_signage_point v request = Some Return_None \<Longrightarrow> assemble v request = Some Return_None"
  by (simp add: assemble_def)

text \<open>
  C7. For every DeclareProofOfSpace request: if \<open>challenge_chain_sp\<close> is not a stored
  signage point, or if the signage point index is positive and the hash of the output of
  the stored reward-chain VDF differs from \<open>reward_chain_sp\<close> of the request, the handler
  returns \<open>None\<close> and has done nothing: no candidate block is stored and no message is
  sent. (When the index is positive and the stored signage point has no reward-chain
  VDF, the assertion of line 674 fails instead, outside sync mode; nothing is stored or
  sent then either.)
\<close>

theorem declare_proof_of_space_unknown_signage_point:
  "(get_signage_point v (challenge_chain_sp request) = None
    \<or> (signage_point_index request > 0
        \<and> (\<exists>sp rc. get_signage_point v (challenge_chain_sp request) = Some sp
              \<and> rc_vdf sp = Some rc
              \<and> get_hash v (vdf_output rc) \<noteq> reward_chain_sp request))
    \<longrightarrow> declare_proof_of_space v request = Some (Returns None, []))
   \<and> (signage_point_index request > 0
       \<and> get_signage_point v (challenge_chain_sp request) = Some sp \<and> rc_vdf sp = None
    \<longrightarrow> declare_proof_of_space v request =
          Some (if farming_view.get_sync_mode v then Returns None else Raises AssertionError, []))"
proof -
  have a: "declare_proof_of_space v request = Some (Returns None, [])"
    if "get_signage_point v (challenge_chain_sp request) = None
        \<or> (signage_point_index request > 0
            \<and> (\<exists>sp rc. get_signage_point v (challenge_chain_sp request) = Some sp
                  \<and> rc_vdf sp = Some rc
                  \<and> get_hash v (vdf_output rc) \<noteq> reward_chain_sp request))"
  proof -
    from that have "resolve_signage_point v request = Some Return_None"
      by (rule resolve_signage_point_unknown)
    then have "assemble v request = Some Return_None"
      by (rule assemble_unknown_signage_point)
    then show ?thesis
      by (simp add: declare_proof_of_space_def)
  qed
  have b: "declare_proof_of_space v request =
          Some (if farming_view.get_sync_mode v then Returns None else Raises AssertionError, [])"
    if "signage_point_index request > 0" "get_signage_point v (challenge_chain_sp request) = Some sp"
      "rc_vdf sp = None"
  proof -
    from that(2,1,3) have "resolve_signage_point v request = Some (Raise AssertionError)"
      by (rule resolve_signage_point_no_rc_vdf)
    then have "assemble v request = Some (Raise AssertionError)"
      by (simp add: assemble_def)
    then show ?thesis
      by (simp add: declare_proof_of_space_def)
  qed
  from a b show ?thesis by blast
qed

theorem declare_proof_of_space_unknown_signage_point_witness:
  "get_signage_point example_farm (challenge_chain_sp (example_declaration\<lparr>challenge_chain_sp := 51\<rparr>))
     = None
   \<and> declare_proof_of_space example_farm (example_declaration\<lparr>challenge_chain_sp := 51\<rparr>)
     = Some (Returns None, [])
   \<and> signage_point_index (example_declaration\<lparr>reward_chain_sp := 61\<rparr>) > 0
   \<and> (\<exists>sp rc. get_signage_point example_farm
                  (challenge_chain_sp (example_declaration\<lparr>reward_chain_sp := 61\<rparr>)) = Some sp
         \<and> rc_vdf sp = Some rc
         \<and> get_hash example_farm (vdf_output rc)
            \<noteq> reward_chain_sp (example_declaration\<lparr>reward_chain_sp := 61\<rparr>))
   \<and> declare_proof_of_space example_farm (example_declaration\<lparr>reward_chain_sp := 61\<rparr>)
     = Some (Returns None, [])"
  using declare_proof_of_space_unknown_signage_point
      [where v = example_farm and request = "example_declaration\<lparr>challenge_chain_sp := 51\<rparr>"]
    declare_proof_of_space_unknown_signage_point
      [where v = example_farm and request = "example_declaration\<lparr>reward_chain_sp := 61\<rparr>"]
  by (simp add: example_farm_def example_declaration_def)

lemma find_prev_block_hops:
  "attempts \<le> 10 \<Longrightarrow> snd (snd (find_prev_block v rc_challenge prev_b attempts)) + attempts \<le> 10"
proof (induction v rc_challenge prev_b attempts rule: find_prev_block.induct)
  case (1 v rc_challenge prev_b attempts)
  show ?case
  proof (cases prev_b)
    case None
    with 1 show ?thesis by simp
  next
    case (Some b)
    show ?thesis
      apply (subst find_prev_block.simps)
      using 1 Some
      apply (auto simp: Let_def split: option.splits)
      done
  qed
qed

declare find_prev_block.simps [simp del]

lemma previous_block_not_found:
  assumes "get_peak v = Some peak"
    and "reward_chain_challenge request sp_vdfs pos_sub_slot = Some (Continue rc)"
    and "\<not> fst (find_prev_block v (backtrack v (rev (finished_sub_slots v)) rc) (Some peak) 0)"
  shows "previous_block v request sp_vdfs pos_sub_slot = Some Return_None"
  using assms by (simp add: previous_block_def Let_def)

text \<open>
  C5. The search for the previous block calls \<open>try_block_record\<close> at most 10 times,
  whatever the chain. When the handler has reached the search with a peak (the signage
  point and its sub slot are resolved, the mempool part has ended normally and the
  reward-chain challenge is determined) and the search ends without \<open>found\<close>, the handler
  returns \<open>None\<close> and has done nothing: no candidate block is stored and no message is
  sent.
\<close>

theorem declare_proof_of_space_previous_block:
  "snd (snd (find_prev_block v rc_challenge prev_b 0)) \<le> 10
   \<and> (resolve_signage_point v request
         = Some (Continue (sp_vdfs, cc_challenge_hash, pos_sub_slot, total_iters, quality))
       \<and> grab_mempool v = Some (Continue mempool)
       \<and> get_peak v = Some peak
       \<and> reward_chain_challenge request sp_vdfs pos_sub_slot = Some (Continue rc)
       \<and> \<not> fst (find_prev_block v (backtrack v (rev (finished_sub_slots v)) rc) (Some peak) 0)
       \<longrightarrow> declare_proof_of_space v request = Some (Returns None, []))"
proof -
  have "snd (snd (find_prev_block v rc_challenge prev_b 0)) + 0 \<le> 10"
    by (rule find_prev_block_hops) simp
  then have hops: "snd (snd (find_prev_block v rc_challenge prev_b 0)) \<le> 10"
    by simp
  have fails: "declare_proof_of_space v request = Some (Returns None, [])"
    if r: "resolve_signage_point v request
         = Some (Continue (sp_vdfs, cc_challenge_hash, pos_sub_slot, total_iters, quality))"
      and m: "grab_mempool v = Some (Continue mempool)"
      and p: "get_peak v = Some peak"
      and c: "reward_chain_challenge request sp_vdfs pos_sub_slot = Some (Continue rc)"
      and n: "\<not> fst (find_prev_block v (backtrack v (rev (finished_sub_slots v)) rc) (Some peak) 0)"
  proof -
    from p c n have "previous_block v request sp_vdfs pos_sub_slot = Some Return_None"
      by (rule previous_block_not_found)
    with r m have "assemble v request = Some Return_None"
      by (simp add: assemble_def split: prod.splits)
    then show ?thesis
      by (simp add: declare_proof_of_space_def)
  qed
  from hops fails show ?thesis by blast
qed

lemmas farm_example_defs =
  example_farm_def example_declaration_def example_block_def example_unfinished_block_def
  example_bundle_def example_farm_off_chain_def

lemmas farm_defs =
  resolve_signage_point_def grab_mempool_def
  previous_block_def reward_chain_challenge_def finished_sub_slots_for_def targets_def
  difficulty_and_iters_def iterations_def block_timestamp_def store_and_request_def
  backup_args_def uint64_def uint32_def of_outcome_def is_Exception_def G2Element_def
  last_transaction_block.simps nearest_transaction_block.simps find_prev_block.simps

theorem declare_proof_of_space_previous_block_witness:
  "resolve_signage_point example_farm_off_chain example_declaration
     = Some (Continue
         (\<lparr>cc_vdf = Some \<lparr>challenge = 40, number_of_iterations = 8, vdf_output = 6\<rparr>,
           rc_vdf = Some \<lparr>challenge = 99, number_of_iterations = 8, vdf_output = 7\<rparr>\<rparr>,
          40, Some (example_bundle 30 64 64, 0, 5000), 5000, 70))
   \<and> grab_mempool example_farm_off_chain = Some (Continue (9, Some 77, Some [1], Some [2]))
   \<and> get_peak example_farm_off_chain = Some (example_block 3)
   \<and> find_prev_block example_farm_off_chain
         (backtrack example_farm_off_chain (rev (finished_sub_slots example_farm_off_chain)) 99)
         (Some (example_block 3)) 0 = (False, None, 3)
   \<and> declare_proof_of_space example_farm_off_chain example_declaration = Some (Returns None, [])"
  using declare_proof_of_space_previous_block
    [where v = example_farm_off_chain and request = example_declaration
      and sp_vdfs = "\<lparr>cc_vdf = Some \<lparr>challenge = 40, number_of_iterations = 8, vdf_output = 6\<rparr>,
           rc_vdf = Some \<lparr>challenge = 99, number_of_iterations = 8, vdf_output = 7\<rparr>\<rparr>"
      and cc_challenge_hash = 40 and pos_sub_slot = "Some (example_bundle 30 64 64, 0, 5000)"
      and total_iters = 5000 and quality = 70 and mempool = "(9, Some 77, Some [1], Some [2])"
      and peak = "example_block 3" and rc = 99]
  by (simp add: farm_defs farm_example_defs)

end
